theory Spec2Isabelle
  imports Main
begin

section \<open>The upload driver of dput (\<^verbatim>\<open>dput/uploader.py\<close>)\<close>

text \<open>
  The module drives one upload: it computes the name of the \<^verbatim>\<open>.upload\<close> log file,
  runs the checkers of the profile, opens the log, enters the context-managed uploader
  and sends every file. Exceptions are values of type \<open>error\<close>; a function that can
  raise and that touches the outside world returns its outcome together with the new
  world. The world holds the files and the sequence of calls made on the external
  collaborators, in the order in which they were made.
\<close>

subsection \<open>Data\<close>

datatype error =
    DputConfigurationError string
  | DputError string
  | UploadException string
  | KeyError string
  | IOError string
  | OtherError string

text \<open>
  A profile is the dictionary returned by \<^verbatim>\<open>dput.profile.load_profile\<close>. The module reads
  the keys below; \<open>None\<close> is a key that is absent, so that \<^verbatim>\<open>profile['k']\<close> raises
  \<^verbatim>\<open>KeyError\<close> there and \<^verbatim>\<open>'k' in profile\<close> is false. The field \<open>method_name\<close> is
  the key \<^verbatim>\<open>'method'\<close>.
\<close>

record profile =
  method_name :: "string option"
  name :: "string option"
  fqdn :: "string option"
  incoming :: "string option"
  interface :: "string option"
  pre_upload_command :: "string option"
  post_upload_command :: "string option"
  checkers :: "string list option"

text \<open>The getters of the changes object (\<^verbatim>\<open>get_changes_file()\<close> and the others).\<close>

record changes =
  get_changes_file :: string
  get_filename :: string
  get_package_name :: string
  get_files :: "string list"

text \<open>The command line; \<open>passive_ftp\<close> is \<^verbatim>\<open>args.passive\<close>.\<close>

record args =
  host :: string
  force :: bool
  simulate :: bool
  delayed :: "int option"
  passive_ftp :: bool

text \<open>
  What a concrete uploader class does when its three abstract methods are called:
  \<open>None\<close> is a normal return, \<open>Some e\<close> raises \<open>e\<close>.
\<close>

record backend =
  initialize :: "error option"
  upload_file :: "string \<Rightarrow> error option"
  shutdown :: "error option"

text \<open>
  The collaborators that are imported from other modules, as parameters:
  \<^verbatim>\<open>load_profile\<close>, the two registries behind \<^verbatim>\<open>get_obj\<close>, \<^verbatim>\<open>run_command\<close>
  (output, stderr, return code), \<^verbatim>\<open>run_checker\<close>, the two overrides (they update the
  profile in place) and whether \<^verbatim>\<open>open(path, 'w')\<close> succeeds.
\<close>

record env =
  load_profile :: "string \<Rightarrow> error + profile"
  uploaders :: "string \<rightharpoonup> backend"
  interfaces :: "string \<Rightarrow> bool"
  run_command :: "string \<Rightarrow> string \<times> string \<times> int"
  run_checker :: "string \<Rightarrow> changes \<Rightarrow> profile \<Rightarrow> error option"
  make_delayed_upload :: "profile \<Rightarrow> int \<Rightarrow> error + profile"
  force_passive_ftp_upload :: "profile \<Rightarrow> error + profile"
  can_open :: "string \<Rightarrow> bool"

datatype event =
    GetObj string string
  | Construct string
  | Initialize
  | PreHook
  | RunCommand string
  | StdoutWrite string
  | UploadFile string
  | PostHook
  | Shutdown
  | RunChecker string
  | Access string
  | Open string
  | Write string string

text \<open>
  The world: the calls made so far, the content of the files that exist, and the paths
  that the process may not read (for which \<^verbatim>\<open>os.access(path, os.R_OK)\<close> is false
  even when the file exists).
\<close>

record world =
  trace :: "event list"
  fs :: "string \<rightharpoonup> string"
  unreadable :: "string set"

type_synonym 'a result = "(error + 'a) \<times> world"

record obj =
  config :: profile
  impl :: backend

subsection \<open>Strings and files\<close>

definition emit :: "event \<Rightarrow> world \<Rightarrow> world" where
  "emit e w = w\<lparr>trace := trace w @ [e]\<rparr>"

definition endswith :: "string \<Rightarrow> string \<Rightarrow> bool" where
  "endswith s suf \<longleftrightarrow>
     length suf \<le> length s \<and> drop (length s - length suf) s = suf"

text \<open>\<^verbatim>\<open>os.path.basename\<close>: what follows the last slash.\<close>

definition basename :: "string \<Rightarrow> string" where
  "basename p = rev (takeWhile (\<lambda>c. c \<noteq> CHR ''/'') (rev p))"

definition newline :: char where
  "newline = CHR 0x0A"

definition quote :: char where
  "quote = CHR 0x27"

text \<open>\<^verbatim>\<open>"%d" % n\<close>.\<close>

fun show_nat :: "nat \<Rightarrow> string" where
  "show_nat n =
     (if n < 10 then [''0123456789'' ! n]
      else show_nat (n div 10) @ [''0123456789'' ! (n mod 10)])"

declare show_nat.simps [simp del]

definition show_int :: "int \<Rightarrow> string" where
  "show_int i = (if i < 0 then ''-'' @ show_nat (nat (- i)) else show_nat (nat i))"

text \<open>\<^verbatim>\<open>os.access(path, os.R_OK)\<close>: the file exists and the process may read it.\<close>

definition os_access :: "string \<Rightarrow> world \<Rightarrow> bool \<times> world" where
  "os_access path w =
     (fs w path \<noteq> None \<and> path \<notin> unreadable w, emit (Access path) w)"

text \<open>\<^verbatim>\<open>open(path, 'w')\<close> creates the file, or truncates the one that is there.\<close>

definition open_w :: "env \<Rightarrow> string \<Rightarrow> world \<Rightarrow> unit result" where
  "open_w env path w =
     (if can_open env path
      then (Inr (), (emit (Open path) w)\<lparr>fs := (fs w)(path \<mapsto> [])\<rparr>)
      else (Inl (IOError path), emit (Open path) w))"

definition log_write :: "string \<Rightarrow> string \<Rightarrow> world \<Rightarrow> world" where
  "log_write path s w =
     (emit (Write path s) w)
       \<lparr>fs := (fs w)(path \<mapsto> (case fs w path of None \<Rightarrow> s | Some c \<Rightarrow> c @ s))\<rparr>"

definition getitem :: "string \<Rightarrow> 'a option \<Rightarrow> error + 'a" where
  "getitem k v = (case v of None \<Rightarrow> Inl (KeyError k) | Some x \<Rightarrow> Inr x)"

subsection \<open>\<^verbatim>\<open>AbstractUploader\<close>\<close>

definition AbstractUploader_init :: "env \<Rightarrow> backend \<Rightarrow> profile \<Rightarrow> world \<Rightarrow> obj result" where
  "AbstractUploader_init env klass p w =
     (let iface = (case interface p of None \<Rightarrow> ''cli'' | Some i \<Rightarrow> i);
          w1 = emit (GetObj ''interfaces'' iface) w
      in if \<not> interfaces env iface
         then (Inl (DputConfigurationError
                 (''No such interface: `'' @ iface @ [quote])), w1)
         else (Inr \<lparr>config = p, impl = klass\<rparr>, w1))"

definition run_hook :: "env \<Rightarrow> string option \<Rightarrow> world \<Rightarrow> unit result" where
  "run_hook env hook w =
     (case hook of
        None \<Rightarrow> (Inr (), w)
      | Some cmd \<Rightarrow>
          if cmd \<noteq> [] then
            (case run_command env cmd of
               (output, stderr, ret) \<Rightarrow>
                 let w1 = emit (StdoutWrite output) (emit (RunCommand cmd) w)
                 in if ret \<noteq> 0
                    then (Inl (DputError
                            (''Command `'' @ cmd @ [quote] @ '' returned an error: ''
                               @ stderr @ '' [err='' @ show_int ret @ '']'')), w1)
                    else (Inr (), w1))
          else (Inr (), w))"

definition pre_hook :: "env \<Rightarrow> obj \<Rightarrow> world \<Rightarrow> unit result" where
  "pre_hook env ob w = run_hook env (pre_upload_command (config ob)) (emit PreHook w)"

definition post_hook :: "env \<Rightarrow> obj \<Rightarrow> world \<Rightarrow> unit result" where
  "post_hook env ob w = run_hook env (post_upload_command (config ob)) (emit PostHook w)"

definition obj_initialize :: "obj \<Rightarrow> world \<Rightarrow> unit result" where
  "obj_initialize ob w =
     (case initialize (impl ob) of
        Some e \<Rightarrow> (Inl e, emit Initialize w)
      | None \<Rightarrow> (Inr (), emit Initialize w))"

definition obj_upload_file :: "obj \<Rightarrow> string \<Rightarrow> world \<Rightarrow> unit result" where
  "obj_upload_file ob path w =
     (case upload_file (impl ob) path of
        Some e \<Rightarrow> (Inl e, emit (UploadFile path) w)
      | None \<Rightarrow> (Inr (), emit (UploadFile path) w))"

definition obj_shutdown :: "obj \<Rightarrow> world \<Rightarrow> unit result" where
  "obj_shutdown ob w =
     (case shutdown (impl ob) of
        Some e \<Rightarrow> (Inl e, emit Shutdown w)
      | None \<Rightarrow> (Inr (), emit Shutdown w))"

subsection \<open>The context-managed uploader\<close>

text \<open>
  The \<^verbatim>\<open>finally\<close> block of the generator: the post-hook, then \<^verbatim>\<open>shutdown\<close>. An
  exception raised in the block leaves it at once and replaces the outcome \<open>r\<close> of the
  body; when the block returns, the outcome of the body stands.
\<close>

definition finally_block :: "env \<Rightarrow> obj \<Rightarrow> error + unit \<Rightarrow> world \<Rightarrow> unit result" where
  "finally_block env ob r w =
     (case post_hook env ob w of
        (Inl e, w1) \<Rightarrow> (Inl e, w1)
      | (Inr _, w1) \<Rightarrow>
          (case obj_shutdown ob w1 of
             (Inl e, w2) \<Rightarrow> (Inl e, w2)
           | (Inr _, w2) \<Rightarrow> (r, w2)))"

text \<open>
  What precedes the \<^verbatim>\<open>yield\<close> runs when the \<^verbatim>\<open>with\<close> statement is entered:
  the class is looked up, constructed and initialised, and the pre-hook runs. An
  exception there leaves the statement: neither the body nor the \<^verbatim>\<open>finally\<close> block
  runs.
\<close>

definition uploader_enter :: "env \<Rightarrow> string \<Rightarrow> profile \<Rightarrow> world \<Rightarrow> obj result" where
  "uploader_enter env uploader_method p w =
     (let w1 = emit (GetObj ''uploaders'' uploader_method) w
      in case uploaders env uploader_method of
           None \<Rightarrow>
             (Inl (DputConfigurationError
                (''Failed to resolve method '' @ uploader_method @ '' to an uploader class'')),
              w1)
         | Some klass \<Rightarrow>
             (case AbstractUploader_init env klass p (emit (Construct uploader_method) w1) of
                (Inl e, w2) \<Rightarrow> (Inl e, w2)
              | (Inr ob, w2) \<Rightarrow>
                  (case obj_initialize ob w2 of
                     (Inl e, w3) \<Rightarrow> (Inl e, w3)
                   | (Inr _, w3) \<Rightarrow>
                       (case pre_hook env ob w3 of
                          (Inl e, w4) \<Rightarrow> (Inl e, w4)
                        | (Inr _, w4) \<Rightarrow> (Inr ob, w4)))))"

text \<open>\<^verbatim>\<open>with uploader(uploader_method, profile) as obj: body\<close>.\<close>

definition uploader ::
  "env \<Rightarrow> string \<Rightarrow> profile \<Rightarrow> (obj \<Rightarrow> world \<Rightarrow> unit result) \<Rightarrow> world \<Rightarrow> unit result" where
  "uploader env uploader_method p body w =
     (case uploader_enter env uploader_method p w of
        (Inl e, w4) \<Rightarrow> (Inl e, w4)
      | (Inr ob, w4) \<Rightarrow>
          (case body ob w4 of
             (r, w5) \<Rightarrow> finally_block env ob r w5))"

subsection \<open>\<^verbatim>\<open>determine_logfile\<close>\<close>

definition already_uploaded_message :: "string \<Rightarrow> string \<Rightarrow> string \<Rightarrow> string" where
  "already_uploaded_message package dest logfile =
     ''Package '' @ package @ '' was already uploaded to '' @ dest @ [newline]
       @ ''If you want to upload nonetheless, use --force or remove '' @ logfile"

definition determine_logfile :: "changes \<Rightarrow> profile \<Rightarrow> args \<Rightarrow> world \<Rightarrow> string result" where
  "determine_logfile c conf a w =
     (let logfile = get_changes_file c; xtn = ''.changes''
      in if endswith logfile xtn then
           (case getitem ''name'' (name conf) of
              Inl e \<Rightarrow> (Inl e, w)
            | Inr n \<Rightarrow>
                (let logfile' = take (length logfile - length xtn) logfile
                                  @ ''.'' @ n @ ''.upload''
                 in case os_access logfile' w of
                      (readable, w1) \<Rightarrow>
                        if readable \<and> \<not> force a
                        then (Inl (UploadException
                                (already_uploaded_message (get_package_name c) n logfile')), w1)
                        else (Inr logfile', w1)))
         else (Inl (UploadException
                 (''File '' @ get_filename c @ '' does not look like a .changes file'')), w))"

subsection \<open>\<^verbatim>\<open>invoke_dput\<close>\<close>

text \<open>The two overrides, lines 193 to 197; \<^verbatim>\<open>if args.delayed\<close> is false for 0 too.\<close>

definition apply_overrides :: "env \<Rightarrow> args \<Rightarrow> profile \<Rightarrow> error + profile" where
  "apply_overrides env a p =
     (case (case delayed a of
              None \<Rightarrow> Inr p
            | Some d \<Rightarrow> if d \<noteq> 0 then make_delayed_upload env p d else Inr p) of
        Inl e \<Rightarrow> Inl e
      | Inr p1 \<Rightarrow> if passive_ftp a then force_passive_ftp_upload env p1 else Inr p1)"

text \<open>The loop over \<^verbatim>\<open>profile['checkers']\<close>: a checker rejects by raising.\<close>

fun run_checkers :: "env \<Rightarrow> changes \<Rightarrow> profile \<Rightarrow> string list \<Rightarrow> world \<Rightarrow> unit result" where
  "run_checkers env c p [] w = (Inr (), w)"
| "run_checkers env c p (checker # rest) w =
     (let w1 = emit (RunChecker checker) w
      in case run_checker env checker c p of
           Some e \<Rightarrow> (Inl e, w1)
         | None \<Rightarrow> run_checkers env c p rest w1)"

text \<open>
  The arguments of the \<^verbatim>\<open>logger.info\<close> call of lines 208 to 212 are evaluated before
  the call: \<^verbatim>\<open>fqdn or profile['name']\<close>, then \<^verbatim>\<open>profile['incoming']\<close>. Logging
  itself has no effect on the world.
\<close>

definition uploading_info :: "string option \<Rightarrow> profile \<Rightarrow> error + unit" where
  "uploading_info fq p =
     (case (case fq of
              Some f \<Rightarrow> if f \<noteq> [] then Inr f else getitem ''name'' (name p)
            | None \<Rightarrow> getitem ''name'' (name p)) of
        Inl e \<Rightarrow> Inl e
      | Inr _ \<Rightarrow>
          (case getitem ''incoming'' (incoming p) of
             Inl e \<Rightarrow> Inl e
           | Inr _ \<Rightarrow> Inr ()))"

definition success_line :: "string \<Rightarrow> string \<Rightarrow> string \<Rightarrow> string" where
  "success_line file dest n =
     ''Successfully uploaded '' @ file @ '' to '' @ dest @ '' for '' @ n @ ''.'' @ [newline]"

text \<open>
  The body of the \<^verbatim>\<open>for\<close> loop, lines 220 to 233, over the paths that remain. The
  destination of the log line is \<^verbatim>\<open>profile['fqdn'] or profile['name']\<close>.
\<close>

fun transfer_loop :: "args \<Rightarrow> profile \<Rightarrow> string \<Rightarrow> string list \<Rightarrow> obj \<Rightarrow> world \<Rightarrow> unit result" where
  "transfer_loop a p logfile [] ob w = (Inr (), w)"
| "transfer_loop a p logfile (path # rest) ob w =
     (case getitem ''name'' (name p) of
        Inl e \<Rightarrow> (Inl e, w)
      | Inr _ \<Rightarrow>
          (case (if \<not> simulate a then obj_upload_file ob path w else (Inr (), w)) of
             (Inl e, w1) \<Rightarrow> (Inl e, w1)
           | (Inr _, w1) \<Rightarrow>
               (case getitem ''fqdn'' (fqdn p) of
                  Inl e \<Rightarrow> (Inl e, w1)
                | Inr f \<Rightarrow>
                    (case (if f \<noteq> [] then Inr f else getitem ''name'' (name p)) of
                       Inl e \<Rightarrow> (Inl e, w1)
                     | Inr dest \<Rightarrow>
                         (case getitem ''name'' (name p) of
                            Inl e \<Rightarrow> (Inl e, w1)
                          | Inr n \<Rightarrow>
                              transfer_loop a p logfile rest ob
                                (log_write logfile (success_line (basename path) dest n) w1))))))"

text \<open>
  \<^verbatim>\<open>with open(logfile, 'w') as log: with uploader(profile['method'], profile) as obj:\<close>
  and the loop. The log is opened first; \<^verbatim>\<open>profile['method']\<close> is evaluated next.
\<close>

definition upload_all :: "env \<Rightarrow> changes \<Rightarrow> args \<Rightarrow> profile \<Rightarrow> string \<Rightarrow> world \<Rightarrow> unit result" where
  "upload_all env c a p logfile w =
     (case open_w env logfile w of
        (Inl e, w1) \<Rightarrow> (Inl e, w1)
      | (Inr _, w1) \<Rightarrow>
          (case getitem ''method'' (method_name p) of
             Inl e \<Rightarrow> (Inl e, w1)
           | Inr m \<Rightarrow>
               uploader env m p
                 (transfer_loop a p logfile (get_files c @ [get_changes_file c])) w1))"

definition invoke_dput :: "env \<Rightarrow> changes \<Rightarrow> args \<Rightarrow> world \<Rightarrow> unit result" where
  "invoke_dput env c a w =
     (case load_profile env (host a) of
        Inl e \<Rightarrow> (Inl e, w)
      | Inr p0 \<Rightarrow>
          (let fq = fqdn p0
           in case determine_logfile c p0 a w of
                (Inl e, w1) \<Rightarrow> (Inl e, w1)
              | (Inr logfile, w1) \<Rightarrow>
                  (case apply_overrides env a p0 of
                     Inl e \<Rightarrow> (Inl e, w1)
                   | Inr p \<Rightarrow>
                       (case (case checkers p of
                                Some cs \<Rightarrow> run_checkers env c p cs w1
                              | None \<Rightarrow> (Inr (), w1)) of
                          (Inl e, w2) \<Rightarrow> (Inl e, w2)
                        | (Inr _, w2) \<Rightarrow>
                            (case uploading_info fq p of
                               Inl e \<Rightarrow> (Inl e, w2)
                             | Inr _ \<Rightarrow> upload_all env c a p logfile w2)))))"

subsection \<open>Reading the sequence of calls\<close>

text \<open>
  The calls made on the uploader object, the calls of \<^verbatim>\<open>upload_file\<close> among them, the
  calls of \<^verbatim>\<open>run_checker\<close>, the constructions of an uploader, the accesses to the
  file system and the commands run by \<^verbatim>\<open>run_command\<close>.
\<close>

fun is_backend_call :: "event \<Rightarrow> bool" where
  "is_backend_call Initialize = True"
| "is_backend_call PreHook = True"
| "is_backend_call (UploadFile _) = True"
| "is_backend_call PostHook = True"
| "is_backend_call Shutdown = True"
| "is_backend_call _ = False"

fun is_upload_call :: "event \<Rightarrow> bool" where
  "is_upload_call (UploadFile _) = True"
| "is_upload_call _ = False"

fun is_checker_call :: "event \<Rightarrow> bool" where
  "is_checker_call (RunChecker _) = True"
| "is_checker_call _ = False"

fun is_construction :: "event \<Rightarrow> bool" where
  "is_construction (Construct _) = True"
| "is_construction _ = False"

fun is_file_io :: "event \<Rightarrow> bool" where
  "is_file_io (Access _) = True"
| "is_file_io (Open _) = True"
| "is_file_io (Write _ _) = True"
| "is_file_io _ = False"

fun is_command_call :: "event \<Rightarrow> bool" where
  "is_command_call (RunCommand _) = True"
| "is_command_call _ = False"

definition backend_calls :: "world \<Rightarrow> event list" where
  "backend_calls w = filter is_backend_call (trace w)"

definition upload_calls :: "world \<Rightarrow> event list" where
  "upload_calls w = filter is_upload_call (trace w)"

definition checker_calls :: "world \<Rightarrow> event list" where
  "checker_calls w = filter is_checker_call (trace w)"

definition constructions :: "world \<Rightarrow> event list" where
  "constructions w = filter is_construction (trace w)"

definition file_io :: "world \<Rightarrow> event list" where
  "file_io w = filter is_file_io (trace w)"

definition command_calls :: "world \<Rightarrow> event list" where
  "command_calls w = filter is_command_call (trace w)"

text \<open>A hook that does not raise: none configured, an empty command, or return code 0.\<close>

definition hook_ok :: "env \<Rightarrow> string option \<Rightarrow> bool" where
  "hook_ok env hook \<longleftrightarrow>
     (case hook of
        None \<Rightarrow> True
      | Some cmd \<Rightarrow> cmd = [] \<or> (case run_command env cmd of (output, stderr, ret) \<Rightarrow> ret = 0))"

subsection \<open>A concrete upload\<close>

definition ex_profile :: profile where
  "ex_profile =
     \<lparr>method_name = Some ''ftp'', name = Some ''myhost'', fqdn = Some ''ftp.example.org'',
      incoming = Some ''/pub/incoming'', interface = None,
      pre_upload_command = Some [], post_upload_command = Some ''true'',
      checkers = Some [''gpg'', ''lintian'']\<rparr>"

definition ex_backend :: backend where
  "ex_backend = \<lparr>initialize = None, upload_file = (\<lambda>path. None), shutdown = None\<rparr>"

definition ex_env :: env where
  "ex_env =
     \<lparr>load_profile = (\<lambda>h. Inr ex_profile),
      uploaders = [''ftp'' \<mapsto> ex_backend],
      interfaces = (\<lambda>i. i = ''cli''),
      run_command = (\<lambda>cmd. ([], [], if cmd = ''false'' then 1 else 0)),
      run_checker = (\<lambda>checker c p. None),
      make_delayed_upload = (\<lambda>p d. Inr p),
      force_passive_ftp_upload = (\<lambda>p. Inr p),
      can_open = (\<lambda>path. True)\<rparr>"

definition ex_changes :: changes where
  "ex_changes =
     \<lparr>get_changes_file = ''foo_1.0_amd64.changes'',
      get_filename = ''foo_1.0_amd64.changes'',
      get_package_name = ''foo'',
      get_files = [''foo_1.0.dsc'', ''pool/foo_1.0_amd64.deb'']\<rparr>"

definition ex_args :: args where
  "ex_args = \<lparr>host = ''myhost'', force = False, simulate = False, delayed = None,
     passive_ftp = False\<rparr>"

definition ex_world :: world where
  "ex_world = \<lparr>trace = [], fs = Map.empty, unreadable = {}\<rparr>"

text \<open>Further situations: an uploader whose transfers fail, one that cannot connect, a
  checker that rejects, a log that is already there, and the message of a hook command
  that returns 1.\<close>

definition ex_marker :: string where
  "ex_marker = ''foo_1.0_amd64.myhost.upload''"

definition ex_env_with :: "profile \<Rightarrow> backend \<Rightarrow> env" where
  "ex_env_with p b = ex_env\<lparr>load_profile := \<lambda>h. Inr p, uploaders := [''ftp'' \<mapsto> b]\<rparr>"

definition ex_backend_down :: backend where
  "ex_backend_down = ex_backend\<lparr>upload_file := \<lambda>path. Some (OtherError ''connection lost'')\<rparr>"

definition ex_backend_refused :: backend where
  "ex_backend_refused = ex_backend\<lparr>initialize := Some (OtherError ''connection refused'')\<rparr>"

definition ex_world_marked :: world where
  "ex_world_marked =
     \<lparr>trace = [], fs = [ex_marker \<mapsto> ''uploaded before''], unreadable = {}\<rparr>"

definition ex_world_unreadable :: world where
  "ex_world_unreadable =
     \<lparr>trace = [], fs = [ex_marker \<mapsto> ''uploaded before''], unreadable = {ex_marker}\<rparr>"

definition hook_failure_message :: string where
  "hook_failure_message = ''Command `false'' @ [quote] @ '' returned an error:  [err=1]''"

definition ex_env_gpg_rejects :: env where
  "ex_env_gpg_rejects =
     ex_env\<lparr>run_checker :=
       \<lambda>checker c p. if checker = ''gpg'' then Some (OtherError ''no signature'') else None\<rparr>"

subsection \<open>The events of a hook\<close>

text \<open>What \<^verbatim>\<open>_run_hook\<close> does before it looks at the return code.\<close>

definition hook_events :: "env \<Rightarrow> string option \<Rightarrow> event list" where
  "hook_events env hook =
     (case hook of
        None \<Rightarrow> []
      | Some cmd \<Rightarrow>
          if cmd \<noteq> [] then [RunCommand cmd, StdoutWrite (fst (run_command env cmd))] else [])"

section \<open>Properties\<close>

subsection \<open>Hooks and the \<^verbatim>\<open>finally\<close> block\<close>

lemma trace_emit [simp]: "trace (emit e w) = trace w @ [e]"
  by (simp add: emit_def)

lemma fs_emit [simp]: "fs (emit e w) = fs w"
  by (simp add: emit_def)

lemma run_hook_trace [simp]: "trace (snd (run_hook env h w)) = trace w @ hook_events env h"
  by (simp add: run_hook_def hook_events_def Let_def split: option.splits prod.splits)

lemma run_hook_fs [simp]: "fs (snd (run_hook env h w)) = fs w"
  by (simp add: run_hook_def Let_def split: option.splits prod.splits)

lemma run_hook_ok: "hook_ok env h \<Longrightarrow> fst (run_hook env h w) = Inr ()"
  by (auto simp: run_hook_def hook_ok_def Let_def split: option.splits prod.splits)

lemma run_hook_fail: "\<not> hook_ok env h \<Longrightarrow> \<exists>msg. fst (run_hook env h w) = Inl (DputError msg)"
  by (auto simp: run_hook_def hook_ok_def Let_def split: option.splits prod.splits)

lemma run_hook_eqD:
  assumes "run_hook env h w = (r, w')"
  shows "trace w' = trace w @ hook_events env h \<and> fs w' = fs w
           \<and> (hook_ok env h \<longleftrightarrow> r = Inr ())"
  using run_hook_trace [of env h w] run_hook_fs [of env h w] assms
    run_hook_ok [of env h w] run_hook_fail [of env h w]
  by (cases "hook_ok env h") auto

lemma hook_events_backend [simp]: "filter is_backend_call (hook_events env h) = []"
  and hook_events_upload [simp]: "filter is_upload_call (hook_events env h) = []"
  and hook_events_checker [simp]: "filter is_checker_call (hook_events env h) = []"
  and hook_events_construction [simp]: "filter is_construction (hook_events env h) = []"
  and hook_events_file_io [simp]: "filter is_file_io (hook_events env h) = []"
  by (simp_all add: hook_events_def split: option.splits)

lemma post_hook_trace [simp]:
  "trace (snd (post_hook env ob w)) =
     trace w @ PostHook # hook_events env (post_upload_command (config ob))"
  by (simp add: post_hook_def)

lemma post_hook_fs [simp]: "fs (snd (post_hook env ob w)) = fs w"
  by (simp add: post_hook_def)

lemma finally_block_ok:
  assumes "hook_ok env (post_upload_command (config ob))"
  shows "finally_block env ob r w =
           ((case shutdown (impl ob) of None \<Rightarrow> r | Some e \<Rightarrow> Inl e),
            emit Shutdown (snd (post_hook env ob w)))"
proof -
  obtain w1 where "post_hook env ob w = (Inr (), w1)"
    using run_hook_ok [OF assms, of "emit PostHook w"]
    by (cases "post_hook env ob w") (simp add: post_hook_def)
  then show ?thesis
    by (simp add: finally_block_def obj_shutdown_def split: option.splits)
qed

lemma finally_block_fail:
  assumes "\<not> hook_ok env (post_upload_command (config ob))"
  shows "\<exists>msg. finally_block env ob r w = (Inl (DputError msg), snd (post_hook env ob w))"
proof -
  obtain msg w1 where "post_hook env ob w = (Inl (DputError msg), w1)"
    using run_hook_fail [OF assms, of "emit PostHook w"]
    by (cases "post_hook env ob w") (auto simp: post_hook_def)
  then show ?thesis
    by (simp add: finally_block_def)
qed

lemma finally_block_Inr:
  assumes "finally_block env ob r w = (Inr u, w')"
  shows "hook_ok env (post_upload_command (config ob))" and "shutdown (impl ob) = None"
    and "r = Inr u" and "w' = emit Shutdown (snd (post_hook env ob w))"
proof -
  show ok: "hook_ok env (post_upload_command (config ob))"
    using assms finally_block_fail [of env ob r w] by auto
  from finally_block_ok [OF ok, of r w] assms
  show "shutdown (impl ob) = None" and "r = Inr u"
    and "w' = emit Shutdown (snd (post_hook env ob w))"
    by (auto split: option.splits)
qed

subsection \<open>Entering the uploader\<close>

lemma uploader_enter_Inr:
  assumes "uploader_enter env m p w = (Inr ob, w1)"
  shows "config ob = p" and "uploaders env m = Some (impl ob)"
    and "initialize (impl ob) = None" and "hook_ok env (pre_upload_command p)"
    and "interfaces env (case interface p of None \<Rightarrow> ''cli'' | Some i \<Rightarrow> i)"
    and "fs w1 = fs w"
    and "trace w1 = trace w @
           [GetObj ''uploaders'' m, Construct m,
            GetObj ''interfaces'' (case interface p of None \<Rightarrow> ''cli'' | Some i \<Rightarrow> i),
            Initialize, PreHook] @ hook_events env (pre_upload_command p)"
  using assms
  by (auto simp: uploader_enter_def AbstractUploader_init_def obj_initialize_def pre_hook_def
        Let_def
      split: option.splits if_splits prod.splits sum.splits
      dest!: run_hook_eqD)

lemma uploader_entered:
  assumes "uploader_enter env m p w = (Inr ob, w1)"
  shows "uploader env m p body w = finally_block env ob (fst (body ob w1)) (snd (body ob w1))"
  using assms by (cases "body ob w1") (simp add: uploader_def)

lemma uploader_Inr:
  assumes "uploader env m p body w = (Inr u, w')"
  obtains ob w1 where "uploader_enter env m p w = (Inr ob, w1)"
    "finally_block env ob (fst (body ob w1)) (snd (body ob w1)) = (Inr u, w')"
proof (cases "uploader_enter env m p w")
  case (Pair r w1)
  with assms obtain ob where "r = Inr ob"
    by (cases r) (auto simp: uploader_def)
  with Pair assms that show ?thesis
    by (simp add: uploader_entered)
qed

lemma uploader_enter_pre_hook_fails:
  assumes "uploaders env m = Some klass"
    and "interfaces env (case interface p of None \<Rightarrow> ''cli'' | Some i \<Rightarrow> i)"
    and "initialize klass = None" and "\<not> hook_ok env (pre_upload_command p)"
  shows "\<exists>msg w1. uploader_enter env m p w = (Inl (DputError msg), w1)
           \<and> backend_calls w1 = backend_calls w @ [Initialize, PreHook]"
proof -
  let ?w3 = "emit Initialize (emit (GetObj ''interfaces''
               (case interface p of None \<Rightarrow> ''cli'' | Some i \<Rightarrow> i))
               (emit (Construct m) (emit (GetObj ''uploaders'' m) w)))"
  obtain msg where msg: "fst (run_hook env (pre_upload_command p) (emit PreHook ?w3)) =
      Inl (DputError msg)"
    using run_hook_fail [OF assms(4)] by blast
  then have "uploader_enter env m p w =
      (Inl (DputError msg), snd (run_hook env (pre_upload_command p) (emit PreHook ?w3)))"
    using assms(1-3)
    by (cases "run_hook env (pre_upload_command p) (emit PreHook ?w3)")
       (simp add: uploader_enter_def AbstractUploader_init_def obj_initialize_def pre_hook_def
          Let_def)
  moreover have "backend_calls (snd (run_hook env (pre_upload_command p) (emit PreHook ?w3))) =
      backend_calls w @ [Initialize, PreHook]"
    by (simp add: backend_calls_def)
  ultimately show ?thesis by blast
qed

subsection \<open>The transfer loop\<close>

lemma trace_log_write [simp]: "trace (log_write l s w) = trace w @ [Write l s]"
  by (simp add: log_write_def)

lemma fs_log_write:
  "fs (log_write l s w) = (fs w)(l \<mapsto> (case fs w l of None \<Rightarrow> s | Some c \<Rightarrow> c @ s))"
  by (simp add: log_write_def)

lemma transfer_loop_step_disj:
  "snd (transfer_loop a p l (path # rest) ob w) = w
   \<or> (\<not> simulate a \<and> snd (transfer_loop a p l (path # rest) ob w) = emit (UploadFile path) w)
   \<or> (simulate a \<and> (\<exists>s. transfer_loop a p l (path # rest) ob w =
          transfer_loop a p l rest ob (log_write l s w)))
   \<or> (\<not> simulate a \<and> (\<exists>s. transfer_loop a p l (path # rest) ob w =
          transfer_loop a p l rest ob (log_write l s (emit (UploadFile path) w))))"
proof (cases "name p")
  case None
  then show ?thesis by (simp add: getitem_def)
next
  case (Some n)
  show ?thesis
  proof (cases "fqdn p")
    case None
    with Some show ?thesis
      by (cases "upload_file (impl ob) path") (simp_all add: getitem_def obj_upload_file_def)
  next
    case (Some f)
    with \<open>name p = Some n\<close> show ?thesis
      by (cases "upload_file (impl ob) path"; cases "f = []")
         (auto simp: getitem_def obj_upload_file_def)
  qed
qed

lemma transfer_loop_step:
  obtains (stop) "snd (transfer_loop a p l (path # rest) ob w) = w"
  | (failed) "\<not> simulate a"
      "snd (transfer_loop a p l (path # rest) ob w) = emit (UploadFile path) w"
  | (dry) s where "simulate a"
      "transfer_loop a p l (path # rest) ob w = transfer_loop a p l rest ob (log_write l s w)"
  | (sent) s where "\<not> simulate a"
      "transfer_loop a p l (path # rest) ob w =
         transfer_loop a p l rest ob (log_write l s (emit (UploadFile path) w))"
  using transfer_loop_step_disj [of a p l path rest ob w] by blast

lemma transfer_loop_backend:
  "\<exists>k\<le>length paths. (simulate a \<longrightarrow> k = 0) \<and>
     backend_calls (snd (transfer_loop a p l paths ob w)) =
       backend_calls w @ map UploadFile (take k paths)"
proof (induction paths arbitrary: w)
  case Nil
  show ?case by simp
next
  case (Cons path rest)
  show ?case
  proof (cases rule: transfer_loop_step [of a p l path rest ob w])
    case stop
    then have "backend_calls (snd (transfer_loop a p l (path # rest) ob w)) =
                 backend_calls w @ map UploadFile (take 0 (path # rest))"
      by simp
    then show ?thesis by blast
  next
    case failed
    then have "backend_calls (snd (transfer_loop a p l (path # rest) ob w)) =
                 backend_calls w @ map UploadFile (take (Suc 0) (path # rest))"
      by (simp add: backend_calls_def)
    moreover have "Suc 0 \<le> length (path # rest)" by simp
    ultimately show ?thesis using failed(1) by blast
  next
    case (dry s)
    from Cons.IH [of "log_write l s w"] dry(1)
    have "backend_calls (snd (transfer_loop a p l rest ob (log_write l s w))) =
            backend_calls (log_write l s w)"
      by auto
    with dry have "backend_calls (snd (transfer_loop a p l (path # rest) ob w)) =
                     backend_calls w @ map UploadFile (take 0 (path # rest))"
      by (simp add: backend_calls_def)
    then show ?thesis by blast
  next
    case (sent s)
    from Cons.IH [of "log_write l s (emit (UploadFile path) w)"]
    obtain k where k: "k \<le> length rest"
      "backend_calls (snd (transfer_loop a p l rest ob (log_write l s (emit (UploadFile path) w)))) =
         backend_calls (log_write l s (emit (UploadFile path) w)) @ map UploadFile (take k rest)"
      by blast
    from k(2) sent(2)
    have "backend_calls (snd (transfer_loop a p l (path # rest) ob w)) =
            backend_calls w @ map UploadFile (take (Suc k) (path # rest))"
      by (simp add: backend_calls_def)
    moreover have "Suc k \<le> length (path # rest)" using k(1) by simp
    ultimately show ?thesis using sent(1) by blast
  qed
qed

lemma transfer_loop_dry_run:
  assumes "simulate a" "name p = Some n" "fqdn p = Some f"
    and d: "d = (if f \<noteq> [] then f else n)"
    and "fs w l = Some c0"
  shows "fst (transfer_loop a p l paths ob w) = Inr ()
         \<and> trace (snd (transfer_loop a p l paths ob w)) =
             trace w @ map (\<lambda>path. Write l (success_line (basename path) d n)) paths
         \<and> fs (snd (transfer_loop a p l paths ob w)) l =
             Some (c0 @ concat (map (\<lambda>path. success_line (basename path) d n) paths))"
  using assms(5)
proof (induction paths arbitrary: w c0)
  case Nil
  then show ?case by simp
next
  case (Cons path rest)
  have step: "transfer_loop a p l (path # rest) ob w =
                transfer_loop a p l rest ob (log_write l (success_line (basename path) d n) w)"
    using assms(1-3) d by (simp add: getitem_def)
  have "fs (log_write l (success_line (basename path) d n) w) l =
          Some (c0 @ success_line (basename path) d n)"
    using Cons.prems by (simp add: fs_log_write)
  from Cons.IH [OF this] show ?case
    unfolding step by simp
qed

lemma transfer_loop_keys:
  assumes "fst (transfer_loop a p l (path # rest) ob w) = Inr u"
  shows "\<exists>n f. name p = Some n \<and> fqdn p = Some f"
  using assms
  by (cases "name p"; cases "fqdn p")
     (auto simp: getitem_def obj_upload_file_def split: if_splits option.splits)

subsection \<open>The log file name, the checkers and the driver\<close>

lemma determine_logfile_changes:
  assumes "get_changes_file c = stem @ ''.changes''" and "name conf = Some d"
  shows "determine_logfile c conf a w =
           (if fs w (stem @ ''.'' @ d @ ''.upload'') \<noteq> None
               \<and> stem @ ''.'' @ d @ ''.upload'' \<notin> unreadable w \<and> \<not> force a
            then Inl (UploadException
                   (already_uploaded_message (get_package_name c) d
                      (stem @ ''.'' @ d @ ''.upload'')))
            else Inr (stem @ ''.'' @ d @ ''.upload''),
            emit (Access (stem @ ''.'' @ d @ ''.upload'')) w)"
  using assms
  by (simp add: determine_logfile_def endswith_def getitem_def os_access_def Let_def)

lemma determine_logfile_world:
  assumes "determine_logfile c conf a w = (r, w1)"
  shows "fs w1 = fs w \<and> (\<exists>evs. trace w1 = trace w @ evs \<and> (\<forall>e\<in>set evs. \<exists>L. e = Access L))"
  using assms
  by (auto simp: determine_logfile_def os_access_def getitem_def Let_def
      split: if_splits option.splits)

lemma determine_logfile_Inr:
  assumes "determine_logfile c conf a w = (Inr L, w1)"
  shows "w1 = emit (Access L) w"
    and "\<exists>n. name conf = Some n \<and>
           L = take (length (get_changes_file c) - length ''.changes'') (get_changes_file c)
                 @ ''.'' @ n @ ''.upload''"
    and "endswith (get_changes_file c) ''.changes''"
  using assms
  by (auto simp: determine_logfile_def os_access_def getitem_def Let_def
      split: if_splits option.splits)

lemma run_checkers_Inr:
  "fst (run_checkers env c p cs w) = Inr u \<Longrightarrow>
     trace (snd (run_checkers env c p cs w)) = trace w @ map RunChecker cs"
proof (induction cs arbitrary: w)
  case Nil
  then show ?case by simp
next
  case (Cons ch rest)
  show ?case
  proof (cases "run_checker env ch c p")
    case None
    with Cons.prems have "fst (run_checkers env c p rest (emit (RunChecker ch) w)) = Inr u"
      by (simp add: Let_def)
    from Cons.IH [OF this] None show ?thesis
      by (simp add: Let_def)
  next
    case (Some e)
    with Cons.prems show ?thesis by (simp add: Let_def)
  qed
qed

lemma run_checkers_reject:
  assumes "k < length cs" "run_checker env (cs ! k) c p = Some e"
  shows "\<exists>m e'. m \<le> Suc k \<and>
           fst (run_checkers env c p cs w) = Inl e' \<and>
           trace (snd (run_checkers env c p cs w)) = trace w @ map RunChecker (take m cs)"
  using assms
proof (induction cs arbitrary: k w)
  case Nil
  then show ?case by simp
next
  case (Cons ch rest)
  show ?case
  proof (cases "run_checker env ch c p")
    case (Some e0)
    then have "fst (run_checkers env c p (ch # rest) w) = Inl e0 \<and>
               trace (snd (run_checkers env c p (ch # rest) w)) =
                 trace w @ map RunChecker (take (Suc 0) (ch # rest))"
      by (simp add: Let_def)
    moreover have "Suc 0 \<le> Suc k" by simp
    ultimately show ?thesis by blast
  next
    case None
    with Cons.prems obtain k' where k': "k = Suc k'"
      by (cases k) auto
    with Cons.prems have "k' < length rest" "run_checker env (rest ! k') c p = Some e"
      by auto
    from Cons.IH [OF this, of "emit (RunChecker ch) w"]
    obtain m e' where m: "m \<le> Suc k'"
      "fst (run_checkers env c p rest (emit (RunChecker ch) w)) = Inl e'"
      "trace (snd (run_checkers env c p rest (emit (RunChecker ch) w))) =
         trace (emit (RunChecker ch) w) @ map RunChecker (take m rest)"
      by blast
    from m(2,3) None have "fst (run_checkers env c p (ch # rest) w) = Inl e' \<and>
        trace (snd (run_checkers env c p (ch # rest) w)) =
          trace w @ map RunChecker (take (Suc m) (ch # rest))"
      by (simp add: Let_def)
    moreover have "Suc m \<le> Suc k" using m(1) k' by simp
    ultimately show ?thesis by blast
  qed
qed

lemma invoke_dput_loaded:
  assumes "load_profile env (host a) = Inr p0" "apply_overrides env a p0 = Inr p"
  shows "invoke_dput env c a w =
     (case determine_logfile c p0 a w of
        (Inl e, w1) \<Rightarrow> (Inl e, w1)
      | (Inr logfile, w1) \<Rightarrow>
          (case (case checkers p of
                   Some cs \<Rightarrow> run_checkers env c p cs w1
                 | None \<Rightarrow> (Inr (), w1)) of
             (Inl e, w2) \<Rightarrow> (Inl e, w2)
           | (Inr _, w2) \<Rightarrow>
               (case uploading_info (fqdn p0) p of
                  Inl e \<Rightarrow> (Inl e, w2)
                | Inr _ \<Rightarrow> upload_all env c a p logfile w2)))"
  using assms
  by (cases "determine_logfile c p0 a w"; cases "fst (determine_logfile c p0 a w)")
     (simp_all add: invoke_dput_def Let_def)

lemma upload_all_Inr:
  assumes "upload_all env c a p L w = (Inr u, w')"
  obtains m where "can_open env L" "method_name p = Some m"
    "uploader env m p (transfer_loop a p L (get_files c @ [get_changes_file c]))
       ((emit (Open L) w)\<lparr>fs := (fs w)(L \<mapsto> [])\<rparr>) = (Inr u, w')"
  using assms
  by (auto simp: upload_all_def open_w_def getitem_def split: if_splits option.splits)

lemma access_only_filters:
  assumes "\<forall>e\<in>set evs. \<exists>L. e = Access L"
  shows "filter is_checker_call evs = []" and "filter is_construction evs = []"
    and "filter is_backend_call evs = []" and "filter is_upload_call evs = []"
  using assms by (auto simp: filter_empty_conv)

subsection \<open>Evaluating the concrete uploads\<close>

lemmas ex_defs = ex_env_def ex_changes_def ex_args_def ex_world_def ex_profile_def ex_backend_def

lemmas ex_defs2 = ex_defs ex_marker_def ex_env_with_def ex_backend_down_def
  ex_backend_refused_def ex_world_marked_def ex_world_unreadable_def
  hook_failure_message_def show_int_def
  show_nat.simps

lemmas model_defs = invoke_dput_def determine_logfile_def endswith_def getitem_def
  os_access_def emit_def apply_overrides_def uploading_info_def upload_all_def open_w_def
  uploader_def uploader_enter_def AbstractUploader_init_def obj_initialize_def pre_hook_def
  run_hook_def obj_upload_file_def log_write_def finally_block_def post_hook_def
  obj_shutdown_def Let_def backend_calls_def upload_calls_def checker_calls_def
  constructions_def file_io_def command_calls_def basename_def success_line_def already_uploaded_message_def
  hook_ok_def

section \<open>The claims\<close>

subsection \<open>C1: post-hook and shutdown after the transfer loop\<close>

text \<open>
  C1 as stated does not hold: it promises the post-hook and \<^verbatim>\<open>shutdown\<close> once each for
  every upload that reaches the transfer loop. With a post-hook command that returns 1 the
  three files are sent and the post-hook is called, but \<^verbatim>\<open>_run_hook\<close> raises inside the
  \<^verbatim>\<open>finally\<close> block and \<^verbatim>\<open>shutdown\<close> is not called.
\<close>

theorem post_hook_failure_skips_shutdown:
  "fst (invoke_dput (ex_env_with (ex_profile\<lparr>post_upload_command := Some ''false''\<rparr>) ex_backend)
          ex_changes ex_args ex_world) = Inl (DputError hook_failure_message)
   \<and> backend_calls (snd (invoke_dput
          (ex_env_with (ex_profile\<lparr>post_upload_command := Some ''false''\<rparr>) ex_backend)
          ex_changes ex_args ex_world)) =
       [Initialize, PreHook, UploadFile ''foo_1.0.dsc'', UploadFile ''pool/foo_1.0_amd64.deb'',
        UploadFile ''foo_1.0_amd64.changes'', PostHook]"
  by (simp add: model_defs ex_defs2)

text \<open>
  C1, amended: for every upload that has entered the \<^verbatim>\<open>with\<close> statement (the class was
  found, constructed and initialised and the pre-hook returned), and whose post-hook does
  not fail, the calls on the uploader are \<^verbatim>\<open>initialize\<close>, the pre-hook, \<^verbatim>\<open>upload_file\<close>
  for a prefix of the paths (none in a dry run), the post-hook and \<^verbatim>\<open>shutdown\<close>, in this
  order and the last two exactly once, whether the loop completes or is left by an
  exception.
\<close>

theorem teardown_after_transfer_loop:
  assumes "uploader_enter env m p w = (Inr ob, w1)"
    and "hook_ok env (post_upload_command p)"
  shows "\<exists>k\<le>length paths. (simulate a \<longrightarrow> k = 0) \<and>
           backend_calls (snd (uploader env m p (transfer_loop a p l paths) w)) =
             backend_calls w @ [Initialize, PreHook] @ map UploadFile (take k paths)
               @ [PostHook, Shutdown]"
proof -
  note en = uploader_enter_Inr [OF assms(1)]
  from assms(2) en(1) have ok: "hook_ok env (post_upload_command (config ob))"
    by simp
  have bc1: "backend_calls w1 = backend_calls w @ [Initialize, PreHook]"
    by (simp add: backend_calls_def en(7))
  obtain k where k: "k \<le> length paths" "simulate a \<longrightarrow> k = 0"
    "backend_calls (snd (transfer_loop a p l paths ob w1)) =
       backend_calls w1 @ map UploadFile (take k paths)"
    using transfer_loop_backend [of paths a p l ob w1] by blast
  have "backend_calls (snd (uploader env m p (transfer_loop a p l paths) w)) =
          backend_calls (snd (transfer_loop a p l paths ob w1)) @ [PostHook, Shutdown]"
    by (simp add: uploader_entered [OF assms(1)] finally_block_ok [OF ok] backend_calls_def)
  with k(3) bc1 have "backend_calls (snd (uploader env m p (transfer_loop a p l paths) w)) =
      backend_calls w @ [Initialize, PreHook] @ map UploadFile (take k paths)
        @ [PostHook, Shutdown]"
    by simp
  with k(1,2) show ?thesis by blast
qed

theorem teardown_after_transfer_loop_witness:
  "uploader_enter ex_env ''ftp'' ex_profile ex_world =
     (Inr \<lparr>config = ex_profile, impl = ex_backend\<rparr>,
      snd (uploader_enter ex_env ''ftp'' ex_profile ex_world))
   \<and> hook_ok ex_env (post_upload_command ex_profile)
   \<and> (\<exists>k\<le>length [''foo_1.0.dsc'', ''foo_1.0_amd64.changes''].
        (simulate ex_args \<longrightarrow> k = 0) \<and>
        backend_calls (snd (uploader ex_env ''ftp'' ex_profile
          (transfer_loop ex_args ex_profile ex_marker [''foo_1.0.dsc'', ''foo_1.0_amd64.changes''])
          ex_world)) =
        backend_calls ex_world @ [Initialize, PreHook]
          @ map UploadFile (take k [''foo_1.0.dsc'', ''foo_1.0_amd64.changes''])
          @ [PostHook, Shutdown])"
proof -
  have h1: "uploader_enter ex_env ''ftp'' ex_profile ex_world =
     (Inr \<lparr>config = ex_profile, impl = ex_backend\<rparr>,
      snd (uploader_enter ex_env ''ftp'' ex_profile ex_world))"
    by (simp add: model_defs ex_defs)
  have h2: "hook_ok ex_env (post_upload_command ex_profile)"
    by (simp add: hook_ok_def ex_defs)
  from teardown_after_transfer_loop [OF h1 h2,
      of "[''foo_1.0.dsc'', ''foo_1.0_amd64.changes'']" ex_args ex_marker] h1 h2
  show ?thesis by blast
qed

subsection \<open>C2: an unregistered method\<close>

text \<open>
  C2 says that an upload whose method is not registered fails with a configuration error
  without any file I/O, the log being neither created nor truncated. The upload of
  \<open>ex_changes\<close> with the method \<^verbatim>\<open>scp\<close>, which the registry does not know, does raise
  \<^verbatim>\<open>DputConfigurationError\<close>, but the log has been opened for writing before the method
  is looked up: a log that was absent is created empty, and with \<^verbatim>\<open>--force\<close> a
  log that was there is truncated.
\<close>

theorem unregistered_method_truncates_marker:
  "uploaders (ex_env_with (ex_profile\<lparr>method_name := Some ''scp''\<rparr>) ex_backend) ''scp'' = None
   \<and> fs ex_world ex_marker = None
   \<and> fst (invoke_dput (ex_env_with (ex_profile\<lparr>method_name := Some ''scp''\<rparr>) ex_backend)
            ex_changes ex_args ex_world) =
       Inl (DputConfigurationError ''Failed to resolve method scp to an uploader class'')
   \<and> fs (snd (invoke_dput (ex_env_with (ex_profile\<lparr>method_name := Some ''scp''\<rparr>) ex_backend)
            ex_changes ex_args ex_world)) ex_marker = Some []
   \<and> file_io (snd (invoke_dput (ex_env_with (ex_profile\<lparr>method_name := Some ''scp''\<rparr>) ex_backend)
            ex_changes ex_args ex_world)) = [Access ex_marker, Open ex_marker]
   \<and> fs ex_world_marked ex_marker = Some ''uploaded before''
   \<and> fs (snd (invoke_dput (ex_env_with (ex_profile\<lparr>method_name := Some ''scp''\<rparr>) ex_backend)
            ex_changes (ex_args\<lparr>force := True\<rparr>) ex_world_marked)) ex_marker = Some []"
  by (simp add: model_defs ex_defs2)

subsection \<open>C3: when the log is created\<close>

text \<open>
  C3 says that the log is created only once the uploader is initialised and the loop
  writes, and never in a dry run. In the dry run of \<open>ex_changes\<close> the log is created and
  holds three lines; and when \<^verbatim>\<open>initialize\<close> raises, the log has been opened before
  \<^verbatim>\<open>initialize\<close> was called and is left behind empty.
\<close>

theorem marker_created_before_ready_and_on_dry_run:
  "fs ex_world ex_marker = None
   \<and> fst (invoke_dput ex_env ex_changes (ex_args\<lparr>simulate := True\<rparr>) ex_world) = Inr ()
   \<and> fs (snd (invoke_dput ex_env ex_changes (ex_args\<lparr>simulate := True\<rparr>) ex_world)) ex_marker =
       Some (success_line ''foo_1.0.dsc'' ''ftp.example.org'' ''myhost''
             @ success_line ''foo_1.0_amd64.deb'' ''ftp.example.org'' ''myhost''
             @ success_line ''foo_1.0_amd64.changes'' ''ftp.example.org'' ''myhost'')
   \<and> fst (invoke_dput (ex_env_with ex_profile ex_backend_refused) ex_changes ex_args ex_world) =
       Inl (OtherError ''connection refused'')
   \<and> trace (snd (invoke_dput (ex_env_with ex_profile ex_backend_refused)
        ex_changes ex_args ex_world)) =
       [Access ex_marker, RunChecker ''gpg'', RunChecker ''lintian'', Open ex_marker,
        GetObj ''uploaders'' ''ftp'', Construct ''ftp'', GetObj ''interfaces'' ''cli'',
        Initialize]
   \<and> fs (snd (invoke_dput (ex_env_with ex_profile ex_backend_refused)
        ex_changes ex_args ex_world)) ex_marker = Some []"
  by (simp add: model_defs ex_defs2)

subsection \<open>C4: shutdown when a hook fails\<close>

text \<open>
  C4 as stated does not hold. When the pre-hook fails after \<^verbatim>\<open>initialize\<close> has returned,
  \<^verbatim>\<open>shutdown\<close> is not called. When a transfer raises and the post-hook then fails, the
  error that reaches the caller is the one of the hook, not the one of the transfer, and
  \<^verbatim>\<open>shutdown\<close> is not called either.
\<close>

theorem hook_failure_skips_shutdown:
  "fst (invoke_dput (ex_env_with (ex_profile\<lparr>pre_upload_command := Some ''false''\<rparr>) ex_backend)
          ex_changes ex_args ex_world) = Inl (DputError hook_failure_message)
   \<and> backend_calls (snd (invoke_dput
          (ex_env_with (ex_profile\<lparr>pre_upload_command := Some ''false''\<rparr>) ex_backend)
          ex_changes ex_args ex_world)) = [Initialize, PreHook]
   \<and> upload_file ex_backend_down ''foo_1.0.dsc'' = Some (OtherError ''connection lost'')
   \<and> fst (invoke_dput
          (ex_env_with (ex_profile\<lparr>post_upload_command := Some ''false''\<rparr>) ex_backend_down)
          ex_changes ex_args ex_world) = Inl (DputError hook_failure_message)
   \<and> backend_calls (snd (invoke_dput
          (ex_env_with (ex_profile\<lparr>post_upload_command := Some ''false''\<rparr>) ex_backend_down)
          ex_changes ex_args ex_world)) =
       [Initialize, PreHook, UploadFile ''foo_1.0.dsc'', PostHook]"
  by (simp add: model_defs ex_defs2)

text \<open>
  C4, amended: when the \<^verbatim>\<open>with\<close> statement has been entered and the post-hook does not
  fail, the post-hook and then \<^verbatim>\<open>shutdown\<close> are called whatever the outcome of the body,
  and that outcome (the transfer error, if there is one) is what reaches the caller, unless
  \<^verbatim>\<open>shutdown\<close> itself raises. When the pre-hook fails after \<^verbatim>\<open>initialize\<close> has
  returned, the error of the hook reaches the caller and no call follows the pre-hook:
  no transfer, no post-hook, no \<^verbatim>\<open>shutdown\<close>.
\<close>

theorem shutdown_when_hooks_succeed:
  "(uploader_enter env m p w = (Inr ob, w1) \<and> hook_ok env (post_upload_command p)
      \<and> body ob w1 = (r, w2) \<longrightarrow>
      fst (uploader env m p body w) = (case shutdown (impl ob) of None \<Rightarrow> r | Some e \<Rightarrow> Inl e)
      \<and> backend_calls (snd (uploader env m p body w)) = backend_calls w2 @ [PostHook, Shutdown])
   \<and> (uploaders env m = Some klass
      \<and> interfaces env (case interface p of None \<Rightarrow> ''cli'' | Some i \<Rightarrow> i)
      \<and> initialize klass = None \<and> \<not> hook_ok env (pre_upload_command p) \<longrightarrow>
      (\<exists>msg. fst (uploader env m p body w) = Inl (DputError msg))
      \<and> backend_calls (snd (uploader env m p body w)) = backend_calls w @ [Initialize, PreHook])"
proof (intro conjI impI)
  assume h: "uploader_enter env m p w = (Inr ob, w1) \<and> hook_ok env (post_upload_command p)
      \<and> body ob w1 = (r, w2)"
  then have ok: "hook_ok env (post_upload_command (config ob))"
    using uploader_enter_Inr(1) [of env m p w ob w1] by simp
  from h have u: "uploader env m p body w = finally_block env ob r w2"
    by (simp add: uploader_entered)
  show "fst (uploader env m p body w) = (case shutdown (impl ob) of None \<Rightarrow> r | Some e \<Rightarrow> Inl e)"
    by (simp add: u finally_block_ok [OF ok])
  show "backend_calls (snd (uploader env m p body w)) = backend_calls w2 @ [PostHook, Shutdown]"
    by (simp add: u finally_block_ok [OF ok] backend_calls_def)
next
  assume h: "uploaders env m = Some klass
      \<and> interfaces env (case interface p of None \<Rightarrow> ''cli'' | Some i \<Rightarrow> i)
      \<and> initialize klass = None \<and> \<not> hook_ok env (pre_upload_command p)"
  then obtain msg w1 where e: "uploader_enter env m p w = (Inl (DputError msg), w1)"
      "backend_calls w1 = backend_calls w @ [Initialize, PreHook]"
    using uploader_enter_pre_hook_fails [of env m klass p w] by blast
  then have u: "uploader env m p body w = (Inl (DputError msg), w1)"
    by (simp add: uploader_def)
  show "\<exists>msg. fst (uploader env m p body w) = Inl (DputError msg)"
    by (simp add: u)
  show "backend_calls (snd (uploader env m p body w)) = backend_calls w @ [Initialize, PreHook]"
    by (simp add: u e(2))
qed

theorem shutdown_when_hooks_succeed_witness:
  "uploader_enter (ex_env_with ex_profile ex_backend_down) ''ftp'' ex_profile ex_world =
     (Inr \<lparr>config = ex_profile, impl = ex_backend_down\<rparr>,
      snd (uploader_enter (ex_env_with ex_profile ex_backend_down) ''ftp'' ex_profile ex_world))
   \<and> hook_ok (ex_env_with ex_profile ex_backend_down) (post_upload_command ex_profile)
   \<and> fst (transfer_loop ex_args ex_profile ex_marker [''foo_1.0.dsc'']
        \<lparr>config = ex_profile, impl = ex_backend_down\<rparr>
        (snd (uploader_enter (ex_env_with ex_profile ex_backend_down) ''ftp'' ex_profile ex_world))) =
       Inl (OtherError ''connection lost'')
   \<and> fst (uploader (ex_env_with ex_profile ex_backend_down) ''ftp'' ex_profile
        (transfer_loop ex_args ex_profile ex_marker [''foo_1.0.dsc'']) ex_world) =
       Inl (OtherError ''connection lost'')
   \<and> backend_calls (snd (uploader (ex_env_with ex_profile ex_backend_down) ''ftp'' ex_profile
        (transfer_loop ex_args ex_profile ex_marker [''foo_1.0.dsc'']) ex_world)) =
       [Initialize, PreHook, UploadFile ''foo_1.0.dsc'', PostHook, Shutdown]
   \<and> uploaders (ex_env_with (ex_profile\<lparr>pre_upload_command := Some ''false''\<rparr>) ex_backend) ''ftp'' =
       Some ex_backend
   \<and> \<not> hook_ok (ex_env_with (ex_profile\<lparr>pre_upload_command := Some ''false''\<rparr>) ex_backend)
         (pre_upload_command (ex_profile\<lparr>pre_upload_command := Some ''false''\<rparr>))
   \<and> backend_calls (snd (uploader
        (ex_env_with (ex_profile\<lparr>pre_upload_command := Some ''false''\<rparr>) ex_backend) ''ftp''
        (ex_profile\<lparr>pre_upload_command := Some ''false''\<rparr>)
        (transfer_loop ex_args (ex_profile\<lparr>pre_upload_command := Some ''false''\<rparr>) ex_marker
           [''foo_1.0.dsc'']) ex_world)) = [Initialize, PreHook]"
proof -
  let ?env = "ex_env_with ex_profile ex_backend_down"
  let ?ob = "\<lparr>config = ex_profile, impl = ex_backend_down\<rparr>"
  let ?w1 = "snd (uploader_enter ?env ''ftp'' ex_profile ex_world)"
  let ?body = "transfer_loop ex_args ex_profile ex_marker [''foo_1.0.dsc'']"
  let ?p2 = "ex_profile\<lparr>pre_upload_command := Some ''false''\<rparr>"
  let ?env2 = "ex_env_with ?p2 ex_backend"
  let ?body2 = "transfer_loop ex_args ?p2 ex_marker [''foo_1.0.dsc'']"
  have h1: "uploader_enter ?env ''ftp'' ex_profile ex_world = (Inr ?ob, ?w1)"
    by (simp add: model_defs ex_defs2)
  have h2: "hook_ok ?env (post_upload_command ex_profile)"
    by (simp add: hook_ok_def ex_defs2)
  have h3: "?body ?ob ?w1 = (fst (?body ?ob ?w1), snd (?body ?ob ?w1))"
    by simp
  have r: "fst (?body ?ob ?w1) = Inl (OtherError ''connection lost'')"
    by (simp add: getitem_def obj_upload_file_def ex_defs2)
  have bc: "backend_calls (snd (?body ?ob ?w1)) = [Initialize, PreHook, UploadFile ''foo_1.0.dsc'']"
    by (simp add: model_defs ex_defs2)
  have sd: "shutdown (impl ?ob) = None"
    by (simp add: ex_defs2)
  have g1: "uploaders ?env2 ''ftp'' = Some ex_backend"
    by (simp add: ex_defs2)
  have g2: "interfaces ?env2 (case interface ?p2 of None \<Rightarrow> ''cli'' | Some i \<Rightarrow> i)"
    by (simp add: ex_defs2)
  have g3: "initialize ex_backend = None"
    by (simp add: ex_defs2)
  have g4: "\<not> hook_ok ?env2 (pre_upload_command ?p2)"
    by (simp add: hook_ok_def ex_defs2)
  have bw: "backend_calls ex_world = []"
    by (simp add: backend_calls_def ex_defs)
  from shutdown_when_hooks_succeed
    [of ?env "''ftp''" ex_profile ex_world ?ob ?w1 ?body "fst (?body ?ob ?w1)"
        "snd (?body ?ob ?w1)" ex_backend]
    h1 h2 h3 r bc sd
  have c1: "fst (uploader ?env ''ftp'' ex_profile ?body ex_world) =
              Inl (OtherError ''connection lost'')"
    and c2: "backend_calls (snd (uploader ?env ''ftp'' ex_profile ?body ex_world)) =
              [Initialize, PreHook, UploadFile ''foo_1.0.dsc'', PostHook, Shutdown]"
    by simp_all
  from shutdown_when_hooks_succeed
    [of ?env2 "''ftp''" ?p2 ex_world ?ob ?w1 ?body2 "fst (?body ?ob ?w1)"
        "snd (?body ?ob ?w1)" ex_backend]
    g1 g2 g3 g4 bw
  have c3: "backend_calls (snd (uploader ?env2 ''ftp'' ?p2 ?body2 ex_world)) =
              [Initialize, PreHook]"
    by simp
  from h1 h2 r c1 c2 g1 g4 c3 show ?thesis by simp
qed

subsection \<open>C5: the dry run\<close>

text \<open>
  C5 says that a dry run of a changes object with N files calls \<^verbatim>\<open>upload_file\<close> not at
  all and leaves N + 1 lines in the log, hooks and checkers being run as usual. The log
  line of line 230 reads \<^verbatim>\<open>profile['fqdn']\<close>, which the dry run does not skip: for a
  profile without the key, and the two files of \<open>ex_changes\<close>, both checkers and both
  hooks run and no file is sent, but \<^verbatim>\<open>KeyError\<close> is raised at the first line and the
  log holds no line instead of three.
\<close>

theorem dry_run_without_fqdn_writes_no_line:
  "simulate (ex_args\<lparr>simulate := True\<rparr>)
   \<and> get_files ex_changes = [''foo_1.0.dsc'', ''pool/foo_1.0_amd64.deb'']
   \<and> fqdn (ex_profile\<lparr>fqdn := None\<rparr>) = None
   \<and> fst (invoke_dput (ex_env_with (ex_profile\<lparr>fqdn := None\<rparr>) ex_backend)
            ex_changes (ex_args\<lparr>simulate := True\<rparr>) ex_world) = Inl (KeyError ''fqdn'')
   \<and> fs (snd (invoke_dput (ex_env_with (ex_profile\<lparr>fqdn := None\<rparr>) ex_backend)
            ex_changes (ex_args\<lparr>simulate := True\<rparr>) ex_world)) ex_marker = Some []
   \<and> trace (snd (invoke_dput (ex_env_with (ex_profile\<lparr>fqdn := None\<rparr>) ex_backend)
            ex_changes (ex_args\<lparr>simulate := True\<rparr>) ex_world)) =
       [Access ''foo_1.0_amd64.myhost.upload'', RunChecker ''gpg'', RunChecker ''lintian'',
        Open ''foo_1.0_amd64.myhost.upload'', GetObj ''uploaders'' ''ftp'', Construct ''ftp'',
        GetObj ''interfaces'' ''cli'', Initialize, PreHook, PostHook, RunCommand ''true'',
        StdoutWrite [], Shutdown]"
  by (simp add: model_defs ex_defs2)

text \<open>
  What the dry run does when it is not cut short: whenever a dry run returns normally, no
  file has been sent, the log holds exactly the lines
  \<^verbatim>\<open>Successfully uploaded <file> to <fqdn or name> for <name>.\<close>, one for each of the N
  files and one for the changes file, each written by one write; the uploader has been
  initialised and shut down around the two hooks, whose commands have been run, and every
  checker has been run.
\<close>

lemma dry_run_trace:
  assumes "simulate a" and "load_profile env (host a) = Inr p0"
    and "apply_overrides env a p0 = Inr p"
    and "fst (invoke_dput env c a w) = Inr ()"
  shows "\<exists>L n f.
           name p = Some n \<and> fqdn p = Some f
           \<and> fst (determine_logfile c p0 a w) = Inr L
           \<and> upload_calls (snd (invoke_dput env c a w)) = upload_calls w
           \<and> fs (snd (invoke_dput env c a w)) L =
               Some (concat (map (\<lambda>path.
                 success_line (basename path) (if f \<noteq> [] then f else n) n)
                 (get_files c @ [get_changes_file c])))
           \<and> file_io (snd (invoke_dput env c a w)) =
               file_io w @ [Access L, Open L] @ map (\<lambda>path. Write L
                 (success_line (basename path) (if f \<noteq> [] then f else n) n))
                 (get_files c @ [get_changes_file c])
           \<and> backend_calls (snd (invoke_dput env c a w)) =
               backend_calls w @ [Initialize, PreHook, PostHook, Shutdown]
           \<and> checker_calls (snd (invoke_dput env c a w)) =
               checker_calls w @
                 map RunChecker (case checkers p of None \<Rightarrow> [] | Some cs \<Rightarrow> cs)
           \<and> command_calls (snd (invoke_dput env c a w)) =
               command_calls w
                 @ filter is_command_call (hook_events env (pre_upload_command p))
                 @ filter is_command_call (hook_events env (post_upload_command p))"
proof -
  let ?paths = "get_files c @ [get_changes_file c]"
  obtain w' where R: "invoke_dput env c a w = (Inr (), w')"
    using assms(4) by (cases "invoke_dput env c a w") simp
  note unf = invoke_dput_loaded [OF assms(2,3), of c w]
  obtain r1 w1 where dl: "determine_logfile c p0 a w = (r1, w1)"
    by (cases "determine_logfile c p0 a w")
  with R unf obtain L where L: "r1 = Inr L"
    by (cases r1) auto
  note dlI = determine_logfile_Inr [OF dl [unfolded L]]
  let ?ck = "case checkers p of Some cs \<Rightarrow> run_checkers env c p cs w1 | None \<Rightarrow> (Inr (), w1)"
  obtain r2 w2 where ck: "?ck = (r2, w2)"
    by (cases ?ck)
  with R unf dl L have r2: "r2 = Inr ()"
    by (cases r2) auto
  have w2_trace: "trace w2 = trace w1 @
      map RunChecker (case checkers p of None \<Rightarrow> [] | Some cs \<Rightarrow> cs)"
  proof (cases "checkers p")
    case None
    with ck show ?thesis by simp
  next
    case (Some cs)
    with ck r2 have "run_checkers env c p cs w1 = (Inr (), w2)" by simp
    with run_checkers_Inr [of env c p cs w1 "()"] Some show ?thesis by simp
  qed
  from R unf dl L ck r2 have up: "upload_all env c a p L w2 = (Inr (), w')"
    by (cases "uploading_info (fqdn p0) p") auto
  let ?w3 = "(emit (Open L) w2)\<lparr>fs := (fs w2)(L \<mapsto> [])\<rparr>"
  from upload_all_Inr [OF up] obtain m where m: "can_open env L" "method_name p = Some m"
    "uploader env m p (transfer_loop a p L ?paths) ?w3 = (Inr (), w')"
    by blast
  from uploader_Inr [OF m(3)] obtain ob w4 where
    en: "uploader_enter env m p ?w3 = (Inr ob, w4)" and
    fin: "finally_block env ob (fst (transfer_loop a p L ?paths ob w4))
            (snd (transfer_loop a p L ?paths ob w4)) = (Inr (), w')"
    by blast
  note enI = uploader_enter_Inr [OF en]
  note finI = finally_block_Inr [OF fin]
  from finI(3) obtain n f where nf: "name p = Some n" "fqdn p = Some f"
    using transfer_loop_keys [of a p L "hd ?paths" "tl ?paths" ob w4 "()"]
    by (cases "get_files c") auto
  have "fs w4 L = Some []"
    by (simp add: enI(6))
  from transfer_loop_dry_run [OF assms(1) nf refl this, of ?paths ob]
  have loop: "trace (snd (transfer_loop a p L ?paths ob w4)) =
        trace w4 @ map (\<lambda>path. Write L
          (success_line (basename path) (if f \<noteq> [] then f else n) n)) ?paths"
      "fs (snd (transfer_loop a p L ?paths ob w4)) L =
        Some (concat (map (\<lambda>path.
          success_line (basename path) (if f \<noteq> [] then f else n) n) ?paths))"
    by simp_all
  have tr: "trace w' = trace w @ [Access L]
      @ map RunChecker (case checkers p of None \<Rightarrow> [] | Some cs \<Rightarrow> cs)
      @ [Open L, GetObj ''uploaders'' m, Construct m,
         GetObj ''interfaces'' (case interface p of None \<Rightarrow> ''cli'' | Some i \<Rightarrow> i),
         Initialize, PreHook]
      @ hook_events env (pre_upload_command p)
      @ map (\<lambda>path. Write L
          (success_line (basename path) (if f \<noteq> [] then f else n) n)) ?paths
      @ [PostHook] @ hook_events env (post_upload_command (config ob)) @ [Shutdown]"
    by (simp add: finI(4) loop(1) enI(7) w2_trace dlI(1))
  have fs': "fs w' L = Some (concat (map (\<lambda>path.
          success_line (basename path) (if f \<noteq> [] then f else n) n) ?paths))"
    by (simp add: finI(4) loop(2))
  have "fst (determine_logfile c p0 a w) = Inr L"
    by (simp add: dl L)
  moreover have "upload_calls w' = upload_calls w"
    by (simp add: upload_calls_def tr filter_map o_def)
  moreover have "file_io w' = file_io w @ [Access L, Open L] @ map (\<lambda>path. Write L
          (success_line (basename path) (if f \<noteq> [] then f else n) n)) ?paths"
    by (simp add: file_io_def tr filter_map o_def)
  moreover have "backend_calls w' = backend_calls w @ [Initialize, PreHook, PostHook, Shutdown]"
    by (simp add: backend_calls_def tr filter_map o_def)
  moreover have "checker_calls w' = checker_calls w @
      map RunChecker (case checkers p of None \<Rightarrow> [] | Some cs \<Rightarrow> cs)"
    by (simp add: checker_calls_def tr filter_map o_def)
  moreover have "command_calls w' = command_calls w
      @ filter is_command_call (hook_events env (pre_upload_command p))
      @ filter is_command_call (hook_events env (post_upload_command p))"
    by (simp add: command_calls_def tr filter_map o_def enI(1))
  ultimately show ?thesis
    using nf fs' by (simp add: R)
qed

lemma command_calls_hook_events:
  "filter is_command_call (hook_events env h) =
     (case h of None \<Rightarrow> [] | Some cmd \<Rightarrow> if cmd \<noteq> [] then [RunCommand cmd] else [])"
  by (simp add: hook_events_def split: option.splits)

lemma dry_run_log:
  assumes "simulate a" and "load_profile env (host a) = Inr p0"
    and "apply_overrides env a p0 = Inr p"
    and "fst (invoke_dput env c a w) = Inr ()"
  shows "\<exists>L n f.
           name p = Some n \<and> fqdn p = Some f
           \<and> fst (determine_logfile c p0 a w) = Inr L
           \<and> upload_calls (snd (invoke_dput env c a w)) = upload_calls w
           \<and> fs (snd (invoke_dput env c a w)) L =
               Some (concat (map (\<lambda>path.
                 ''Successfully uploaded '' @ basename path @ '' to ''
                   @ (if f \<noteq> [] then f else n) @ '' for '' @ n @ ''.'' @ [CHR 0x0A])
                 (get_files c @ [get_changes_file c])))
           \<and> length (get_files c @ [get_changes_file c]) = length (get_files c) + 1
           \<and> file_io (snd (invoke_dput env c a w)) =
               file_io w @ [Access L, Open L] @ map (\<lambda>path. Write L
                 (''Successfully uploaded '' @ basename path @ '' to ''
                   @ (if f \<noteq> [] then f else n) @ '' for '' @ n @ ''.'' @ [CHR 0x0A]))
                 (get_files c @ [get_changes_file c])
           \<and> backend_calls (snd (invoke_dput env c a w)) =
               backend_calls w @ [Initialize, PreHook, PostHook, Shutdown]
           \<and> command_calls (snd (invoke_dput env c a w)) =
               command_calls w
                 @ (case pre_upload_command p of None \<Rightarrow> []
                    | Some cmd \<Rightarrow> if cmd \<noteq> [] then [RunCommand cmd] else [])
                 @ (case post_upload_command p of None \<Rightarrow> []
                    | Some cmd \<Rightarrow> if cmd \<noteq> [] then [RunCommand cmd] else [])
           \<and> checker_calls (snd (invoke_dput env c a w)) =
               checker_calls w @
                 map RunChecker (case checkers p of None \<Rightarrow> [] | Some cs \<Rightarrow> cs)"
proof -
  from dry_run_trace [OF assms] obtain L n f where
    "name p = Some n" "fqdn p = Some f" "fst (determine_logfile c p0 a w) = Inr L"
    "upload_calls (snd (invoke_dput env c a w)) = upload_calls w"
    "fs (snd (invoke_dput env c a w)) L =
       Some (concat (map (\<lambda>path.
         success_line (basename path) (if f \<noteq> [] then f else n) n)
         (get_files c @ [get_changes_file c])))"
    "file_io (snd (invoke_dput env c a w)) =
       file_io w @ [Access L, Open L] @ map (\<lambda>path. Write L
         (success_line (basename path) (if f \<noteq> [] then f else n) n))
         (get_files c @ [get_changes_file c])"
    "backend_calls (snd (invoke_dput env c a w)) =
       backend_calls w @ [Initialize, PreHook, PostHook, Shutdown]"
    "checker_calls (snd (invoke_dput env c a w)) =
       checker_calls w @
         map RunChecker (case checkers p of None \<Rightarrow> [] | Some cs \<Rightarrow> cs)"
    "command_calls (snd (invoke_dput env c a w)) =
       command_calls w
         @ filter is_command_call (hook_events env (pre_upload_command p))
         @ filter is_command_call (hook_events env (post_upload_command p))"
    by blast
  then show ?thesis
    by (simp add: success_line_def newline_def command_calls_hook_events)
qed

subsection \<open>C6: a checker that rejects\<close>

text \<open>
  C6: when the checker at position \<open>k\<close> of the list rejects, the checkers that have run
  are a prefix of the list of length at most \<open>k + 1\<close>, so that no later checker runs; no
  uploader is constructed, no call is made on one, and the upload fails.
\<close>

theorem checker_rejection_stops_upload:
  assumes "load_profile env (host a) = Inr p0" and "apply_overrides env a p0 = Inr p"
    and "checkers p = Some cs" and "k < length cs"
    and "run_checker env (cs ! k) c p = Some e"
  shows "(\<exists>m\<le>Suc k. checker_calls (snd (invoke_dput env c a w)) =
             checker_calls w @ map RunChecker (take m cs))
         \<and> constructions (snd (invoke_dput env c a w)) = constructions w
         \<and> backend_calls (snd (invoke_dput env c a w)) = backend_calls w
         \<and> (\<exists>e'. fst (invoke_dput env c a w) = Inl e')"
proof -
  obtain r1 w1 where dl: "determine_logfile c p0 a w = (r1, w1)"
    by (cases "determine_logfile c p0 a w")
  from determine_logfile_world [OF dl]
  obtain evs where evs: "trace w1 = trace w @ evs" "\<forall>e\<in>set evs. \<exists>L. e = Access L"
    by blast
  note flt = access_only_filters [OF evs(2)]
  show ?thesis
  proof (cases r1)
    case (Inl e1)
    with dl have R: "invoke_dput env c a w = (Inl e1, w1)"
      by (simp add: invoke_dput_loaded [OF assms(1,2)])
    have "checker_calls w1 = checker_calls w @ map RunChecker (take 0 cs)"
      by (simp add: checker_calls_def evs(1) flt)
    then have "\<exists>m\<le>Suc k. checker_calls w1 = checker_calls w @ map RunChecker (take m cs)"
      by blast
    then show ?thesis
      by (simp add: R constructions_def backend_calls_def evs(1) flt)
  next
    case (Inr L)
    from run_checkers_reject [OF assms(4,5), of w1]
    obtain m e' where m: "m \<le> Suc k"
      "fst (run_checkers env c p cs w1) = Inl e'"
      "trace (snd (run_checkers env c p cs w1)) = trace w1 @ map RunChecker (take m cs)"
      by blast
    from dl Inr m(2) assms(3)
    have R: "invoke_dput env c a w = (Inl e', snd (run_checkers env c p cs w1))"
      by (cases "run_checkers env c p cs w1") (simp add: invoke_dput_loaded [OF assms(1,2)])
    have "checker_calls (snd (run_checkers env c p cs w1)) =
            checker_calls w @ map RunChecker (take m cs)"
      by (simp add: checker_calls_def m(3) evs(1) flt filter_map o_def)
    with m(1) have "\<exists>m\<le>Suc k. checker_calls (snd (run_checkers env c p cs w1)) =
            checker_calls w @ map RunChecker (take m cs)"
      by blast
    then show ?thesis
      by (simp add: R constructions_def backend_calls_def m(3) evs(1) flt filter_map o_def)
  qed
qed

theorem checker_rejection_stops_upload_witness:
  "load_profile ex_env_gpg_rejects (host ex_args) = Inr ex_profile
   \<and> apply_overrides ex_env_gpg_rejects ex_args ex_profile = Inr ex_profile
   \<and> checkers ex_profile = Some [''gpg'', ''lintian'']
   \<and> 0 < length [''gpg'', ''lintian'']
   \<and> run_checker ex_env_gpg_rejects ([''gpg'', ''lintian''] ! 0) ex_changes ex_profile =
        Some (OtherError ''no signature'')
   \<and> (\<exists>m\<le>Suc 0. checker_calls (snd (invoke_dput ex_env_gpg_rejects ex_changes ex_args ex_world)) =
         checker_calls ex_world @ map RunChecker (take m [''gpg'', ''lintian'']))
   \<and> constructions (snd (invoke_dput ex_env_gpg_rejects ex_changes ex_args ex_world)) =
        constructions ex_world"
proof -
  have h1: "load_profile ex_env_gpg_rejects (host ex_args) = Inr ex_profile"
    by (simp add: ex_env_gpg_rejects_def ex_env_def)
  have h2: "apply_overrides ex_env_gpg_rejects ex_args ex_profile = Inr ex_profile"
    by (simp add: apply_overrides_def ex_env_gpg_rejects_def ex_env_def ex_args_def)
  have h3: "checkers ex_profile = Some [''gpg'', ''lintian'']"
    by (simp add: ex_profile_def)
  have h4: "0 < length [''gpg'', ''lintian'']"
    by simp
  have h5: "run_checker ex_env_gpg_rejects ([''gpg'', ''lintian''] ! 0) ex_changes ex_profile =
      Some (OtherError ''no signature'')"
    by (simp add: ex_env_gpg_rejects_def ex_env_def)
  from checker_rejection_stops_upload [OF h1 h2 h3 h4 h5, of ex_world] h1 h2 h3 h5
  show ?thesis by simp
qed

subsection \<open>C7: the name of the log\<close>

text \<open>
  C7: for a changes file \<open>stem @ ''.changes''\<close> and a profile named \<open>d\<close>, the path that
  \<^verbatim>\<open>determine_logfile\<close> computes is \<open>stem @ ''.'' @ d @ ''.upload''\<close>: this is the path
  it probes, the path it returns, and the path it names when it refuses. For
  \<^verbatim>\<open>foo_1.0_amd64.changes\<close> and \<^verbatim>\<open>myhost\<close> it is \<^verbatim>\<open>foo_1.0_amd64.myhost.upload\<close>.
\<close>

theorem determine_logfile_marker_path:
  assumes "get_changes_file c = stem @ ''.changes''" and "name conf = Some d"
  shows "determine_logfile c conf a w =
           (if fs w (stem @ ''.'' @ d @ ''.upload'') \<noteq> None
               \<and> stem @ ''.'' @ d @ ''.upload'' \<notin> unreadable w \<and> \<not> force a
            then Inl (UploadException
                   (already_uploaded_message (get_package_name c) d
                      (stem @ ''.'' @ d @ ''.upload'')))
            else Inr (stem @ ''.'' @ d @ ''.upload''),
            emit (Access (stem @ ''.'' @ d @ ''.upload'')) w)"
  using assms by (rule determine_logfile_changes)

theorem determine_logfile_marker_path_witness:
  "get_changes_file ex_changes = ''foo_1.0_amd64'' @ ''.changes''
   \<and> name ex_profile = Some ''myhost''
   \<and> fst (determine_logfile ex_changes ex_profile ex_args ex_world) =
       Inr ''foo_1.0_amd64.myhost.upload''"
  using determine_logfile_marker_path
    [of ex_changes "''foo_1.0_amd64''" ex_profile "''myhost''" ex_args ex_world]
  by (simp add: ex_defs)

subsection \<open>C8: a file that is not a changes file\<close>

text \<open>
  C8: when the name of the changes file does not end in \<^verbatim>\<open>.changes\<close>,
  \<^verbatim>\<open>determine_logfile\<close> raises \<^verbatim>\<open>UploadException\<close> and leaves the world as it was: no
  file has been probed, opened or written.
\<close>

theorem determine_logfile_not_changes:
  assumes "\<not> endswith (get_changes_file c) ''.changes''"
  shows "determine_logfile c conf a w =
           (Inl (UploadException
              (''File '' @ get_filename c @ '' does not look like a .changes file'')), w)"
  using assms by (simp add: determine_logfile_def Let_def)

theorem determine_logfile_not_changes_witness:
  "\<not> endswith (get_changes_file (ex_changes\<lparr>get_changes_file := ''foo_1.0.tar.gz''\<rparr>)) ''.changes''
   \<and> determine_logfile (ex_changes\<lparr>get_changes_file := ''foo_1.0.tar.gz''\<rparr>)
         ex_profile ex_args ex_world =
       (Inl (UploadException
          ''File foo_1.0_amd64.changes does not look like a .changes file''), ex_world)"
proof -
  have h: "\<not> endswith (get_changes_file (ex_changes\<lparr>get_changes_file := ''foo_1.0.tar.gz''\<rparr>))
             ''.changes''"
    by (simp add: endswith_def)
  from determine_logfile_not_changes [OF h, of ex_profile ex_args ex_world] h
  show ?thesis by (simp add: ex_changes_def)
qed

subsection \<open>C9: a second upload without \<^verbatim>\<open>--force\<close>\<close>




subsection \<open>C10: a profile without \<^verbatim>\<open>fqdn\<close>\<close>

text \<open>
  C10 says that \<^verbatim>\<open>fqdn\<close> is optional and that the line of the log falls back on the
  name of the profile. The test of line 182 and the message of line 210 do allow a
  profile without the key, but line 230 reads \<^verbatim>\<open>profile['fqdn']\<close> itself: with the key
  absent the first file is sent, then \<^verbatim>\<open>KeyError\<close> is raised and the log stays empty.
\<close>

theorem missing_fqdn_raises_KeyError:
  "fqdn (ex_profile\<lparr>fqdn := None\<rparr>) = None
   \<and> fst (invoke_dput (ex_env_with (ex_profile\<lparr>fqdn := None\<rparr>) ex_backend)
            ex_changes ex_args ex_world) = Inl (KeyError ''fqdn'')
   \<and> upload_calls (snd (invoke_dput (ex_env_with (ex_profile\<lparr>fqdn := None\<rparr>) ex_backend)
            ex_changes ex_args ex_world)) = [UploadFile ''foo_1.0.dsc'']
   \<and> fs (snd (invoke_dput (ex_env_with (ex_profile\<lparr>fqdn := None\<rparr>) ex_backend)
            ex_changes ex_args ex_world)) ex_marker = Some []"
  by (simp add: model_defs ex_defs2)

end
